theory Spec2Isabelle
  imports Complex_Main "HOL-Library.AList"
begin

section \<open>The flow editor of AgentCraft Academy (flow.js)\<close>

text \<open>
  A shallow embedding of the classes \<^verbatim>\<open>AgentNode\<close>, \<^verbatim>\<open>AgentConnection\<close> and
  \<^verbatim>\<open>FlowDiagram\<close> of \<^verbatim>\<open>src/A.C.A/AgentCraftAcademy/src/flow.js\<close>.

  \<^item> A JavaScript \<^verbatim>\<open>Map\<close> iterates in insertion order, \<^verbatim>\<open>set\<close> on a key that is present
    replaces the value in place and on a new key appends, \<^verbatim>\<open>delete\<close> drops the entry: an
    association list with \<open>AList.update\<close>, \<open>AList.delete\<close> and \<open>map_of\<close>.
  \<^item> A JavaScript array used as a stack pushes and pops at its end: a list with
    \<open>xs @ [x]\<close>, \<open>last\<close> and \<open>butlast\<close>.
  \<^item> Numbers are modelled as \<open>real\<close> (coordinates, scale) and \<open>int\<close> (timestamps).
  \<^item> \<^verbatim>\<open>Date.now()\<close> and \<^verbatim>\<open>Math.random()\<close> are inputs: every constructor takes the id
    that \<^verbatim>\<open>generateId()\<close> returns and the time that \<^verbatim>\<open>Date.now()\<close> returns.
  \<^item> Rendering, logging, toasts and emitted events do not change the fields modelled
    here and are left out.
\<close>

subsection \<open>Data model\<close>

record AgentNode =
  a_id :: string
  a_type :: string
  a_x :: real
  a_y :: real
  a_name :: string
  a_status :: string
  a_capabilities :: "string list"
  a_createdAt :: int

record AgentConnection =
  c_id :: string
  sourceId :: string
  targetId :: string
  c_type :: string
  c_createdAt :: int

text \<open>An entry of the undo and redo stacks: \<^verbatim>\<open>{ type, connection }\<close>.\<close>

record Action =
  act_type :: string
  act_connection :: AgentConnection

record Point =
  p_x :: real
  p_y :: real

text \<open>\<^verbatim>\<open>connectionStart\<close> is read as \<^verbatim>\<open>{ agentId, x, y }\<close>.\<close>

record ConnectionStart =
  cs_agentId :: string
  cs_x :: real
  cs_y :: real

text \<open>What \<^verbatim>\<open>canvas.getBoundingClientRect()\<close> gives: the canvas's left and top.\<close>

record DOMRect =
  rect_left :: real
  rect_top :: real

record FlowDiagram =
  canvas :: "DOMRect option"
  agents :: "(string \<times> AgentNode) list"
  connections :: "(string \<times> AgentConnection) list"
  selectedAgent :: "string option"
  connectionStart :: "ConnectionStart option"
  isDragging :: bool
  dragTarget :: "string option"
  undoStack :: "Action list"
  redoStack :: "Action list"
  offsetX :: real
  offsetY :: real
  scale :: real
  isPanning :: bool
  lastPanPoint :: Point

text \<open>The constructor of \<^verbatim>\<open>FlowDiagram\<close> (flow.js 7-38).\<close>

definition FlowDiagram_new :: FlowDiagram where
  "FlowDiagram_new =
     \<lparr>canvas = None, agents = [], connections = [], selectedAgent = None,
      connectionStart = None, isDragging = False, dragTarget = None,
      undoStack = [], redoStack = [], offsetX = 0, offsetY = 0, scale = 1,
      isPanning = False, lastPanPoint = \<lparr>p_x = 0, p_y = 0\<rparr>\<rparr>"

subsection \<open>AgentNode and AgentConnection\<close>

text \<open>
  \<^verbatim>\<open>generateName\<close> and \<^verbatim>\<open>getDefaultCapabilities\<close> (flow.js 940-959) look the type up in
  an object literal of three keys and fall back with \<^verbatim>\<open>||\<close>. (A type that names a
  property every object inherits, such as \<^verbatim>\<open>constructor\<close>, finds that property instead
  of the fallback; such types are outside this model.)
\<close>

definition generateName :: "string \<Rightarrow> string" where
  "generateName type =
     (if type = ''planner'' then ''PlannerAgent''
      else if type = ''executor'' then ''ExecutorAgent''
      else if type = ''evaluator'' then ''EvaluatorAgent''
      else ''UnknownAgent'')"

definition getDefaultCapabilities :: "string \<Rightarrow> string list" where
  "getDefaultCapabilities type =
     (if type = ''planner'' then [''planning'', ''reasoning'', ''strategy'']
      else if type = ''executor'' then [''execution'', ''action'', ''implementation'']
      else if type = ''evaluator'' then [''evaluation'', ''feedback'', ''assessment'']
      else [''basic''])"

text \<open>
  The constructor of \<^verbatim>\<open>AgentNode\<close> (flow.js 919-928). The name parameter defaults to
  \<^verbatim>\<open>null\<close> (\<open>None\<close>), and \<^verbatim>\<open>name || this.generateName(type)\<close> takes the generated name
  for every falsy name: \<^verbatim>\<open>null\<close> and the empty string.
\<close>

definition AgentNode_new ::
  "string \<Rightarrow> int \<Rightarrow> string \<Rightarrow> real \<Rightarrow> real \<Rightarrow> string option \<Rightarrow> AgentNode" where
  "AgentNode_new newId now type x y name =
     \<lparr>a_id = newId, a_type = type, a_x = x, a_y = y,
      a_name = (case name of
                  None \<Rightarrow> generateName type
                | Some n \<Rightarrow> if n = [] then generateName type else n),
      a_status = ''idle'',
      a_capabilities = getDefaultCapabilities type,
      a_createdAt = now\<rparr>"

text \<open>The constructor of \<^verbatim>\<open>AgentConnection\<close> (flow.js 1080-1086).\<close>

definition AgentConnection_new ::
  "string \<Rightarrow> int \<Rightarrow> string \<Rightarrow> string \<Rightarrow> string \<Rightarrow> AgentConnection" where
  "AgentConnection_new newId now src tgt type =
     \<lparr>c_id = newId, sourceId = src, targetId = tgt, c_type = type, c_createdAt = now\<rparr>"

subsection \<open>Graph operations of FlowDiagram\<close>

text \<open>\<^verbatim>\<open>createAgent\<close> (flow.js 144-155).\<close>

definition createAgent ::
  "string \<Rightarrow> int \<Rightarrow> string \<Rightarrow> real \<Rightarrow> real \<Rightarrow> FlowDiagram \<Rightarrow> AgentNode \<times> FlowDiagram" where
  "createAgent newId now type x y s =
     (let agent = AgentNode_new newId now type x y None
      in (agent, s\<lparr>agents := AList.update (a_id agent) agent (agents s)\<rparr>))"

text \<open>
  \<^verbatim>\<open>removeAgent\<close> (flow.js 160-182). The \<^verbatim>\<open>forEach\<close> visits every entry of
  \<^verbatim>\<open>this.connections\<close> and deletes, by its key, each one that touches the agent.
\<close>

definition removeAgent :: "string \<Rightarrow> FlowDiagram \<Rightarrow> FlowDiagram" where
  "removeAgent agentId s =
     (case map_of (agents s) agentId of
        None \<Rightarrow> s
      | Some agent \<Rightarrow>
          (let conns = fold (\<lambda>(connectionId, connection) m.
                               if sourceId connection = agentId \<or> targetId connection = agentId
                               then AList.delete connectionId m else m)
                            (connections s) (connections s);
               s1 = s\<lparr>connections := conns\<rparr>;
               s2 = s1\<lparr>agents := AList.delete agentId (agents s1)\<rparr>
           in if selectedAgent s2 = Some agentId then s2\<lparr>selectedAgent := None\<rparr> else s2))"

text \<open>\<^verbatim>\<open>addToUndoStack\<close> (flow.js 824-827).\<close>

definition addToUndoStack :: "Action \<Rightarrow> FlowDiagram \<Rightarrow> FlowDiagram" where
  "addToUndoStack action s = s\<lparr>undoStack := undoStack s @ [action], redoStack := []\<rparr>"

text \<open>
  \<^verbatim>\<open>createConnection\<close> (flow.js 208-240): \<open>None\<close> is the \<^verbatim>\<open>null\<close> it returns on a
  rejection. The two ids are compared with each other and with the ids of the
  connections; \<^verbatim>\<open>this.agents\<close> is not read.
\<close>

definition createConnection ::
  "string \<Rightarrow> int \<Rightarrow> string \<Rightarrow> string \<Rightarrow> string \<Rightarrow> FlowDiagram
     \<Rightarrow> AgentConnection option \<times> FlowDiagram" where
  "createConnection newId now src tgt type s =
     (if src = tgt then (None, s)
      else case find (\<lambda>conn. sourceId conn = src \<and> targetId conn = tgt)
                     (map snd (connections s)) of
             Some existingConnection \<Rightarrow> (None, s)
           | None \<Rightarrow>
               (let connection = AgentConnection_new newId now src tgt type;
                    s1 = s\<lparr>connections :=
                             AList.update (c_id connection) connection (connections s)\<rparr>
                in (Some connection,
                    addToUndoStack
                      \<lparr>act_type = ''connection-created'', act_connection = connection\<rparr> s1)))"

text \<open>\<^verbatim>\<open>removeConnection\<close> (flow.js 245-261).\<close>

definition removeConnection :: "string \<Rightarrow> FlowDiagram \<Rightarrow> FlowDiagram" where
  "removeConnection connectionId s =
     (case map_of (connections s) connectionId of
        None \<Rightarrow> s
      | Some connection \<Rightarrow>
          addToUndoStack
            \<lparr>act_type = ''connection-removed'', act_connection = connection\<rparr>
            (s\<lparr>connections := AList.delete connectionId (connections s)\<rparr>))"

subsection \<open>Undo and redo\<close>

text \<open>
  \<^verbatim>\<open>undo\<close> and \<^verbatim>\<open>redo\<close> (flow.js 780-819). The \<^verbatim>\<open>switch\<close> has the two cases and no
  default.
\<close>

definition undo :: "FlowDiagram \<Rightarrow> FlowDiagram" where
  "undo s =
     (if undoStack s = [] then s
      else
        (let action = last (undoStack s);
             s1 = s\<lparr>undoStack := butlast (undoStack s), redoStack := redoStack s @ [action]\<rparr>
         in if act_type action = ''connection-created''
            then s1\<lparr>connections :=
                      AList.delete (c_id (act_connection action)) (connections s1)\<rparr>
            else if act_type action = ''connection-removed''
            then s1\<lparr>connections :=
                      AList.update (c_id (act_connection action)) (act_connection action)
                        (connections s1)\<rparr>
            else s1))"

definition redo :: "FlowDiagram \<Rightarrow> FlowDiagram" where
  "redo s =
     (if redoStack s = [] then s
      else
        (let action = last (redoStack s);
             s1 = s\<lparr>redoStack := butlast (redoStack s), undoStack := undoStack s @ [action]\<rparr>
         in if act_type action = ''connection-created''
            then s1\<lparr>connections :=
                      AList.update (c_id (act_connection action)) (act_connection action)
                        (connections s1)\<rparr>
            else if act_type action = ''connection-removed''
            then s1\<lparr>connections :=
                      AList.delete (c_id (act_connection action)) (connections s1)\<rparr>
            else s1))"

subsection \<open>Validation\<close>

text \<open>
  \<^verbatim>\<open>forEach\<close> of a \<^verbatim>\<open>Map\<close> or an array calls the callback on every element in order and
  drops what the callback returns. The callback here works on a state and may fail to
  return (\<open>None\<close>, see \<open>hasCycle\<close>).
\<close>

fun forEach :: "('a \<Rightarrow> 's \<Rightarrow> ('r \<times> 's) option) \<Rightarrow> 'a list \<Rightarrow> 's \<Rightarrow> 's option" where
  "forEach callback [] st = Some st"
| "forEach callback (x # xs) st =
     (case callback x st of
        None \<Rightarrow> None
      | Some (returned, st') \<Rightarrow> forEach callback xs st')"

text \<open>The two sets of \<^verbatim>\<open>detectCircularLoops\<close>, shared by all calls of \<^verbatim>\<open>hasCycle\<close>.\<close>

record DfsState =
  visited :: "string set"
  recursionStack :: "string set"

text \<open>
  The closure \<^verbatim>\<open>hasCycle\<close> (flow.js 364-380). It calls itself from inside the callback of
  \<^verbatim>\<open>this.connections.forEach\<close>; the \<^verbatim>\<open>return true\<close> there returns from the callback, and
  \<^verbatim>\<open>forEach\<close> drops the value. The first argument bounds the depth of the recursion:
  \<open>None\<close> is a call that needs more.
\<close>

primrec hasCycle ::
  "nat \<Rightarrow> AgentConnection list \<Rightarrow> string \<Rightarrow> DfsState \<Rightarrow> (bool \<times> DfsState) option" where
  "hasCycle 0 conns agentId st = None"
| "hasCycle (Suc fuel) conns agentId st =
     (if agentId \<in> recursionStack st then Some (True, st)
      else if agentId \<in> visited st then Some (False, st)
      else
        (case forEach
                (\<lambda>connection st'.
                   if sourceId connection = agentId
                   then hasCycle fuel conns (targetId connection) st'
                   else Some (False, st'))
                conns
                (st\<lparr>visited := insert agentId (visited st),
                    recursionStack := insert agentId (recursionStack st)\<rparr>) of
           None \<Rightarrow> None
         | Some st1 \<Rightarrow>
             Some (False, st1\<lparr>recursionStack := recursionStack st1 - {agentId}\<rparr>)))"

text \<open>The loop over \<^verbatim>\<open>this.agents.keys()\<close> (flow.js 383-387).\<close>

fun checkEachAgent ::
  "nat \<Rightarrow> AgentConnection list \<Rightarrow> string list \<Rightarrow> DfsState \<Rightarrow> bool option" where
  "checkEachAgent fuel conns [] st = Some False"
| "checkEachAgent fuel conns (agentId # rest) st =
     (case hasCycle fuel conns agentId st of
        None \<Rightarrow> None
      | Some (found, st') \<Rightarrow> if found then Some True else checkEachAgent fuel conns rest st')"

text \<open>\<^verbatim>\<open>detectCircularLoops\<close> (flow.js 360-388).\<close>

definition detectCircularLoops :: "nat \<Rightarrow> FlowDiagram \<Rightarrow> bool option" where
  "detectCircularLoops fuel s =
     checkEachAgent fuel (map snd (connections s)) (map fst (agents s))
       \<lparr>visited = {}, recursionStack = {}\<rparr>"

record ValidationResult =
  isValid :: bool
  errors :: "string list"
  warnings :: "string list"

text \<open>
  \<^verbatim>\<open>validateFlow\<close> (flow.js 313-355). The warning is the template literal
  \<^verbatim>\<open>Agent "${agent.name}" is not connected\<close>; \<open>CHR 0x22\<close> is the double quote.
\<close>

definition validateFlow :: "nat \<Rightarrow> FlowDiagram \<Rightarrow> ValidationResult option" where
  "validateFlow fuel s =
     (let connectedAgents =
            fold (\<lambda>connection acc.
                    insert (targetId connection) (insert (sourceId connection) acc))
                 (map snd (connections s)) {};
          warnings0 =
            fold (\<lambda>agent ws.
                    if a_id agent \<notin> connectedAgents
                    then ws @ [''Agent '' @ [CHR 0x22] @ a_name agent @ [CHR 0x22]
                                 @ '' is not connected'']
                    else ws)
                 (map snd (agents s)) []
      in case detectCircularLoops fuel s of
           None \<Rightarrow> None
         | Some hasCircularLoop \<Rightarrow>
             (let errors1 = (if hasCircularLoop then [''Circular loop detected in flow'']
                             else []);
                  plannerCount =
                    length (filter (\<lambda>a. a_type a = ''planner'') (map snd (agents s)));
                  executorCount =
                    length (filter (\<lambda>a. a_type a = ''executor'') (map snd (agents s)));
                  errors2 = (if plannerCount = 0 then errors1 @ [''Missing Planner agent'']
                             else errors1);
                  errors3 = (if executorCount = 0 then errors2 @ [''Missing Executor agent'']
                             else errors2)
              in Some \<lparr>isValid = (length errors3 = 0), errors = errors3,
                        warnings = warnings0\<rparr>))"

subsection \<open>Selection\<close>

text \<open>\<^verbatim>\<open>selectAgent\<close> and \<^verbatim>\<open>deselectAgent\<close> (flow.js 266-293).\<close>

definition selectAgent :: "string \<Rightarrow> FlowDiagram \<Rightarrow> FlowDiagram" where
  "selectAgent agentId s =
     (if selectedAgent s = Some agentId then s else s\<lparr>selectedAgent := Some agentId\<rparr>)"

definition deselectAgent :: "FlowDiagram \<Rightarrow> FlowDiagram" where
  "deselectAgent s = s\<lparr>selectedAgent := None, connectionStart := None\<rparr>"

subsection \<open>Updating an agent\<close>

text \<open>
  \<^verbatim>\<open>updateAgentProperty\<close> (flow.js 298-308) assigns \<^verbatim>\<open>agent[property] = value\<close>. The form of
  the info panel (flow.js 484-492) calls it with the properties \<^verbatim>\<open>name\<close> and \<^verbatim>\<open>status\<close>
  and the text of the field, on every input; these two are modelled.
\<close>

datatype AgentProperty = PropName | PropStatus

definition updateAgentProperty ::
  "string \<Rightarrow> AgentProperty \<Rightarrow> string \<Rightarrow> FlowDiagram \<Rightarrow> FlowDiagram" where
  "updateAgentProperty agentId property v s =
     (case map_of (agents s) agentId of
        None \<Rightarrow> s
      | Some agent \<Rightarrow>
          s\<lparr>agents := AList.update agentId
                (case property of
                   PropName \<Rightarrow> agent\<lparr>a_name := v\<rparr>
                 | PropStatus \<Rightarrow> agent\<lparr>a_status := v\<rparr>)
                (agents s)\<rparr>)"

subsection \<open>Export and import\<close>

text \<open>The plain objects that \<^verbatim>\<open>toJSON\<close> returns and \<^verbatim>\<open>fromJSON\<close> reads.\<close>

record AgentNodeData =
  d_id :: string
  d_type :: string
  d_x :: real
  d_y :: real
  d_name :: string
  d_status :: string
  d_capabilities :: "string list"
  d_createdAt :: int

record AgentConnectionData =
  dc_id :: string
  dc_sourceId :: string
  dc_targetId :: string
  dc_type :: string
  dc_createdAt :: int

record FlowData =
  data_agents :: "AgentNodeData list"
  data_connections :: "AgentConnectionData list"
  data_version :: string

text \<open>\<^verbatim>\<open>AgentNode.toJSON\<close> and \<^verbatim>\<open>AgentNode.fromJSON\<close> (flow.js 1050-1073).\<close>

definition AgentNode_toJSON :: "AgentNode \<Rightarrow> AgentNodeData" where
  "AgentNode_toJSON agent =
     \<lparr>d_id = a_id agent, d_type = a_type agent, d_x = a_x agent, d_y = a_y agent,
      d_name = a_name agent, d_status = a_status agent,
      d_capabilities = a_capabilities agent, d_createdAt = a_createdAt agent\<rparr>"

definition AgentNode_fromJSON :: "string \<Rightarrow> int \<Rightarrow> AgentNodeData \<Rightarrow> AgentNode" where
  "AgentNode_fromJSON newId now data =
     (let agent = AgentNode_new newId now (d_type data) (d_x data) (d_y data)
                    (Some (d_name data))
      in agent\<lparr>a_id := d_id data, a_status := d_status data,
               a_capabilities := d_capabilities data, a_createdAt := d_createdAt data\<rparr>)"

text \<open>\<^verbatim>\<open>AgentConnection.toJSON\<close> and \<^verbatim>\<open>AgentConnection.fromJSON\<close> (flow.js 1225-1243).\<close>

definition AgentConnection_toJSON :: "AgentConnection \<Rightarrow> AgentConnectionData" where
  "AgentConnection_toJSON conn =
     \<lparr>dc_id = c_id conn, dc_sourceId = sourceId conn, dc_targetId = targetId conn,
      dc_type = c_type conn, dc_createdAt = c_createdAt conn\<rparr>"

definition AgentConnection_fromJSON ::
  "string \<Rightarrow> int \<Rightarrow> AgentConnectionData \<Rightarrow> AgentConnection" where
  "AgentConnection_fromJSON newId now data =
     (let connection = AgentConnection_new newId now (dc_sourceId data) (dc_targetId data)
                         (dc_type data)
      in connection\<lparr>c_id := dc_id data, c_createdAt := dc_createdAt data\<rparr>)"

text \<open>\<^verbatim>\<open>export\<close> (flow.js 832-838).\<close>

definition exportFlow :: "FlowDiagram \<Rightarrow> FlowData" where
  "exportFlow s =
     \<lparr>data_agents = map AgentNode_toJSON (map snd (agents s)),
      data_connections = map AgentConnection_toJSON (map snd (connections s)),
      data_version = ''1.0''\<rparr>"

text \<open>
  \<^verbatim>\<open>import\<close> (flow.js 843-859). Every \<^verbatim>\<open>fromJSON\<close> runs a constructor, which draws an id
  and a time; \<^verbatim>\<open>fromJSON\<close> overwrites both, so one pair stands for all the draws.
\<close>

definition importFlow :: "string \<Rightarrow> int \<Rightarrow> FlowData \<Rightarrow> FlowDiagram \<Rightarrow> FlowDiagram" where
  "importFlow newId now data s =
     (let s1 = s\<lparr>agents := [], connections := []\<rparr>;
          s2 = s1\<lparr>agents :=
                   fold (\<lambda>agentData m.
                           (let agent = AgentNode_fromJSON newId now agentData
                            in AList.update (a_id agent) agent m))
                        (data_agents data) (agents s1)\<rparr>
      in s2\<lparr>connections :=
               fold (\<lambda>connData m.
                       (let connection = AgentConnection_fromJSON newId now connData
                        in AList.update (c_id connection) connection m))
                    (data_connections data) (connections s2)\<rparr>)"

subsection \<open>The viewport\<close>

text \<open>The fields of a mouse or wheel event that the handlers read.\<close>

record MouseEvent =
  clientX :: real
  clientY :: real
  deltaY :: real

text \<open>
  \<^verbatim>\<open>getMousePosition\<close> (flow.js 744-752): \<^verbatim>\<open>null\<close> (\<open>None\<close>) without a canvas, else the
  point of the event in model coordinates.
\<close>

definition getMousePosition :: "MouseEvent \<Rightarrow> FlowDiagram \<Rightarrow> Point option" where
  "getMousePosition e s =
     (case canvas s of
        None \<Rightarrow> None
      | Some rect \<Rightarrow>
          Some \<lparr>p_x = (clientX e - rect_left rect - offsetX s) / scale s,
                p_y = (clientY e - rect_top rect - offsetY s) / scale s\<rparr>)"

text \<open>\<^verbatim>\<open>handleWheel\<close> (flow.js 670-685).\<close>

definition handleWheel :: "MouseEvent \<Rightarrow> FlowDiagram \<Rightarrow> FlowDiagram" where
  "handleWheel e s =
     (let zoomFactor = (if deltaY e > 0 then 0.9 else 1.1);
          newScale = max 0.1 (min 3 (scale s * zoomFactor));
          s1 = (case getMousePosition e s of
                  None \<Rightarrow> s
                | Some mousePos \<Rightarrow>
                    s\<lparr>offsetX := p_x mousePos
                                   - (p_x mousePos - offsetX s) * (newScale / scale s),
                      offsetY := p_y mousePos
                                   - (p_y mousePos - offsetY s) * (newScale / scale s)\<rparr>)
      in s1\<lparr>scale := newScale\<rparr>)"

subsection \<open>The demo diagram\<close>

text \<open>
  \<^verbatim>\<open>addDummyAgents\<close> (flow.js 135-139) creates a planner at (150, 150), an executor at
  (350, 150) and an evaluator at (250, 300); the three generated ids are inputs.
\<close>

definition addDummyAgents ::
  "string \<times> string \<times> string \<Rightarrow> int \<Rightarrow> FlowDiagram \<Rightarrow> FlowDiagram" where
  "addDummyAgents ids now s =
     (case ids of (i1, i2, i3) \<Rightarrow>
        snd (createAgent i3 now ''evaluator'' 250 300
          (snd (createAgent i2 now ''executor'' 350 150
            (snd (createAgent i1 now ''planner'' 150 150 s))))))"

definition demo :: FlowDiagram where
  "demo = addDummyAgents (''agent-1'', ''agent-2'', ''agent-3'') 1000 FlowDiagram_new"

text \<open>
  The demo diagram with three connections, planner to executor, evaluator to planner
  and executor to evaluator, and the planner selected.
\<close>

definition demo_wired :: FlowDiagram where
  "demo_wired =
     selectAgent ''agent-1''
       (snd (createConnection ''conn-3'' 4000 ''agent-2'' ''agent-3'' ''data''
         (snd (createConnection ''conn-2'' 3000 ''agent-3'' ''agent-1'' ''control''
           (snd (createConnection ''conn-1'' 2000 ''agent-1'' ''agent-2'' ''data'' demo))))))"

text \<open>The demo diagram after the name field of the planner was cleared.\<close>

definition demo_unnamed :: FlowDiagram where
  "demo_unnamed = updateAgentProperty ''agent-1'' PropName [] demo"

text \<open>
  The demo diagram on a canvas at the top left corner of the window, after one wheel
  event (zoom in) at the client point (100, 100); and a wheel event at (200, 200).
\<close>

definition demo_zoomed :: FlowDiagram where
  "demo_zoomed =
     handleWheel \<lparr>clientX = 100, clientY = 100, deltaY = - 100\<rparr>
       (demo\<lparr>canvas := Some \<lparr>rect_left = 0, rect_top = 0\<rparr>\<rparr>)"

definition wheel_at_200 :: MouseEvent where
  "wheel_at_200 = \<lparr>clientX = 200, clientY = 200, deltaY = - 100\<rparr>"

section \<open>Properties\<close>

subsection \<open>Evaluating the demo diagram\<close>

lemma demo_eval:
  "demo = FlowDiagram_new\<lparr>agents :=
     [(''agent-1'', \<lparr>a_id = ''agent-1'', a_type = ''planner'', a_x = 150, a_y = 150,
         a_name = ''PlannerAgent'', a_status = ''idle'',
         a_capabilities = [''planning'', ''reasoning'', ''strategy''], a_createdAt = 1000\<rparr>),
      (''agent-2'', \<lparr>a_id = ''agent-2'', a_type = ''executor'', a_x = 350, a_y = 150,
         a_name = ''ExecutorAgent'', a_status = ''idle'',
         a_capabilities = [''execution'', ''action'', ''implementation''], a_createdAt = 1000\<rparr>),
      (''agent-3'', \<lparr>a_id = ''agent-3'', a_type = ''evaluator'', a_x = 250, a_y = 300,
         a_name = ''EvaluatorAgent'', a_status = ''idle'',
         a_capabilities = [''evaluation'', ''feedback'', ''assessment''], a_createdAt = 1000\<rparr>)]\<rparr>"
  by (simp add: demo_def addDummyAgents_def createAgent_def AgentNode_new_def
      generateName_def getDefaultCapabilities_def FlowDiagram_new_def Let_def)

lemma demo_fields [simp]:
  "connections demo = []" "undoStack demo = []" "redoStack demo = []"
  "selectedAgent demo = None" "map fst (agents demo) = [''agent-1'', ''agent-2'', ''agent-3'']"
  by (simp_all add: demo_eval FlowDiagram_new_def)

subsection \<open>Rejected connections\<close>

lemma find_Some_iff_ex: "(\<exists>y. find P xs = Some y) \<longleftrightarrow> (\<exists>x \<in> set xs. P x)"
  by (induction xs) auto

lemma find_None_iff_all: "find P xs = None \<longleftrightarrow> (\<forall>x \<in> set xs. \<not> P x)"
  by (induction xs) auto

lemma createConnection_duplicate:
  assumes "\<exists>conn \<in> set (map snd (connections s)). sourceId conn = a \<and> targetId conn = b"
  shows "createConnection newId now a b type s = (None, s)"
proof -
  from assms obtain y where
    "find (\<lambda>conn. sourceId conn = a \<and> targetId conn = b) (map snd (connections s)) = Some y"
    using find_Some_iff_ex [of "\<lambda>conn. sourceId conn = a \<and> targetId conn = b"
        "map snd (connections s)"] by blast
  then show ?thesis by (simp add: createConnection_def)
qed

lemma createConnection_Some:
  assumes "createConnection newId now a b type s = (Some c, s1)"
  shows "a \<noteq> b"
    and "\<forall>conn \<in> set (map snd (connections s)). \<not> (sourceId conn = a \<and> targetId conn = b)"
    and "c = AgentConnection_new newId now a b type"
    and "s1 = addToUndoStack \<lparr>act_type = ''connection-created'', act_connection = c\<rparr>
                (s\<lparr>connections := AList.update newId c (connections s)\<rparr>)"
  using assms
  by (auto simp: createConnection_def Let_def AgentConnection_new_def find_None_iff_all
      split: if_splits option.splits)

lemma createConnection_success:
  assumes "a \<noteq> b"
    and "\<forall>conn \<in> set (map snd (connections s)). \<not> (sourceId conn = a \<and> targetId conn = b)"
  shows "createConnection newId now a b type s =
           (Some (AgentConnection_new newId now a b type),
            addToUndoStack
              \<lparr>act_type = ''connection-created'',
               act_connection = AgentConnection_new newId now a b type\<rparr>
              (s\<lparr>connections :=
                   AList.update newId (AgentConnection_new newId now a b type) (connections s)\<rparr>))"
proof -
  have "find (\<lambda>conn. sourceId conn = a \<and> targetId conn = b) (map snd (connections s)) = None"
    using assms(2) by (simp add: find_None_iff_all)
  then show ?thesis
    using assms(1) by (simp add: createConnection_def Let_def AgentConnection_new_def)
qed

lemma update_entry_in_set: "(k, v) \<in> set (AList.update k v al)"
  by (induction al) auto

text \<open>
  Claim C5. \<^verbatim>\<open>createConnection(a, a, type)\<close> returns \<^verbatim>\<open>null\<close> for every id and every type,
  and changes nothing. When a connection from \<open>a\<close> to \<open>b\<close> is present, another
  \<^verbatim>\<open>createConnection(a, b, type')\<close> returns \<^verbatim>\<open>null\<close> whatever its type, and the diagram,
  so the number of connections, is unchanged; that is the case right after a successful
  \<^verbatim>\<open>createConnection(a, b, type)\<close>.
\<close>

theorem createConnection_rejects_self_and_duplicate:
  "createConnection newId now a a type s = (None, s) \<and>
   ((\<exists>conn \<in> set (map snd (connections s)). sourceId conn = a \<and> targetId conn = b)
      \<longrightarrow> createConnection newId' now' a b type' s = (None, s)) \<and>
   (createConnection newId now a b type s = (Some c, s1)
      \<longrightarrow> createConnection newId' now' a b type' s1 = (None, s1)
        \<and> length (connections (snd (createConnection newId' now' a b type' s1)))
            = length (connections s1))"
proof (intro conjI impI)
  show "createConnection newId now a a type s = (None, s)"
    by (simp add: createConnection_def)
next
  assume "\<exists>conn \<in> set (map snd (connections s)). sourceId conn = a \<and> targetId conn = b"
  then show "createConnection newId' now' a b type' s = (None, s)"
    by (rule createConnection_duplicate)
next
  assume ok: "createConnection newId now a b type s = (Some c, s1)"
  have "(newId, c) \<in> set (connections s1)"
    using createConnection_Some(4) [OF ok]
    by (simp add: addToUndoStack_def update_entry_in_set)
  then have "c \<in> set (map snd (connections s1))"
    by force
  moreover have "sourceId c = a \<and> targetId c = b"
    using createConnection_Some(3) [OF ok] by (simp add: AgentConnection_new_def)
  ultimately have rej: "createConnection newId' now' a b type' s1 = (None, s1)"
    by (intro createConnection_duplicate) blast
  show "createConnection newId' now' a b type' s1 = (None, s1)"
    by (rule rej)
  show "length (connections (snd (createConnection newId' now' a b type' s1)))
          = length (connections s1)"
    by (simp add: rej)
qed

lemma demo_connect:
  "createConnection ''conn-1'' 2000 ''agent-1'' ''agent-2'' ''data'' demo =
     (Some \<lparr>c_id = ''conn-1'', sourceId = ''agent-1'', targetId = ''agent-2'',
            c_type = ''data'', c_createdAt = 2000\<rparr>,
      demo\<lparr>connections :=
             [(''conn-1'', \<lparr>c_id = ''conn-1'', sourceId = ''agent-1'', targetId = ''agent-2'',
                 c_type = ''data'', c_createdAt = 2000\<rparr>)],
           undoStack :=
             [\<lparr>act_type = ''connection-created'',
               act_connection = \<lparr>c_id = ''conn-1'', sourceId = ''agent-1'',
                 targetId = ''agent-2'', c_type = ''data'', c_createdAt = 2000\<rparr>\<rparr>],
           redoStack := []\<rparr>)"
  by (simp add: createConnection_def AgentConnection_new_def addToUndoStack_def Let_def)

theorem createConnection_rejects_witness:
  "createConnection ''conn-1'' 2000 ''agent-1'' ''agent-1'' ''data'' demo = (None, demo) \<and>
   createConnection ''conn-2'' 3000 ''agent-1'' ''agent-2'' ''control''
     (snd (createConnection ''conn-1'' 2000 ''agent-1'' ''agent-2'' ''data'' demo))
   = (None, snd (createConnection ''conn-1'' 2000 ''agent-1'' ''agent-2'' ''data'' demo)) \<and>
   length (connections (snd (createConnection ''conn-2'' 3000 ''agent-1'' ''agent-2'' ''control''
     (snd (createConnection ''conn-1'' 2000 ''agent-1'' ''agent-2'' ''data'' demo))))) = 1"
  using createConnection_rejects_self_and_duplicate
    [of "''conn-1''" 2000 "''agent-1''" "''data''" demo "''agent-2''" "''conn-2''" 3000
      "''control''"
      "\<lparr>c_id = ''conn-1'', sourceId = ''agent-1'', targetId = ''agent-2'',
            c_type = ''data'', c_createdAt = 2000\<rparr>"
      "snd (createConnection ''conn-1'' 2000 ''agent-1'' ''agent-2'' ''data'' demo)"]
  by (simp add: demo_connect)

lemma demo_wired_eval:
  "demo_wired = demo\<lparr>connections :=
       [(''conn-1'', \<lparr>c_id = ''conn-1'', sourceId = ''agent-1'', targetId = ''agent-2'',
           c_type = ''data'', c_createdAt = 2000\<rparr>),
        (''conn-2'', \<lparr>c_id = ''conn-2'', sourceId = ''agent-3'', targetId = ''agent-1'',
           c_type = ''control'', c_createdAt = 3000\<rparr>),
        (''conn-3'', \<lparr>c_id = ''conn-3'', sourceId = ''agent-2'', targetId = ''agent-3'',
           c_type = ''data'', c_createdAt = 4000\<rparr>)],
     selectedAgent := Some ''agent-1'',
     undoStack :=
       [\<lparr>act_type = ''connection-created'',
         act_connection = \<lparr>c_id = ''conn-1'', sourceId = ''agent-1'', targetId = ''agent-2'',
           c_type = ''data'', c_createdAt = 2000\<rparr>\<rparr>,
        \<lparr>act_type = ''connection-created'',
         act_connection = \<lparr>c_id = ''conn-2'', sourceId = ''agent-3'', targetId = ''agent-1'',
           c_type = ''control'', c_createdAt = 3000\<rparr>\<rparr>,
        \<lparr>act_type = ''connection-created'',
         act_connection = \<lparr>c_id = ''conn-3'', sourceId = ''agent-2'', targetId = ''agent-3'',
           c_type = ''data'', c_createdAt = 4000\<rparr>\<rparr>],
     redoStack := []\<rparr>"
  by (simp add: demo_wired_def selectAgent_def createConnection_def AgentConnection_new_def
      addToUndoStack_def Let_def)

subsection \<open>Connections to ids that are not agents\<close>

text \<open>
  Claim C4, as the code has it. \<^verbatim>\<open>createConnection\<close> never reads \<^verbatim>\<open>this.agents\<close>: it
  returns \<^verbatim>\<open>null\<close> exactly when the two ids are equal or a connection with the same
  source and target is present, and then the diagram is unchanged. In every other case,
  also when an id is no agent's, it returns the new connection, and the connections
  afterwards are the connections before with the new connection set under the generated
  id: every other entry stays. The agents are unchanged, and the diagram afterwards is
  the diagram before with that entry set and the action pushed on the undo stack.
\<close>

theorem createConnection_null_iff:
  "(fst (createConnection newId now src tgt type s) = None \<longleftrightarrow>
      src = tgt \<or>
      (\<exists>conn \<in> set (map snd (connections s)). sourceId conn = src \<and> targetId conn = tgt)) \<and>
   (fst (createConnection newId now src tgt type s) = None \<longrightarrow>
      snd (createConnection newId now src tgt type s) = s) \<and>
   (fst (createConnection newId now src tgt type s) \<noteq> None \<longrightarrow>
      fst (createConnection newId now src tgt type s)
        = Some (AgentConnection_new newId now src tgt type) \<and>
      connections (snd (createConnection newId now src tgt type s))
        = AList.update newId (AgentConnection_new newId now src tgt type) (connections s) \<and>
      map_of (connections (snd (createConnection newId now src tgt type s))) newId
        = Some (AgentConnection_new newId now src tgt type) \<and>
      agents (snd (createConnection newId now src tgt type s)) = agents s \<and>
      snd (createConnection newId now src tgt type s)
        = addToUndoStack
            \<lparr>act_type = ''connection-created'',
             act_connection = AgentConnection_new newId now src tgt type\<rparr>
            (s\<lparr>connections :=
                 AList.update newId (AgentConnection_new newId now src tgt type)
                   (connections s)\<rparr>))"
proof (cases "src = tgt \<or>
    (\<exists>conn \<in> set (map snd (connections s)). sourceId conn = src \<and> targetId conn = tgt)")
  case True
  have "createConnection newId now src tgt type s = (None, s)"
  proof (cases "src = tgt")
    case True
    then show ?thesis by (simp add: createConnection_def)
  next
    case False
    with \<open>src = tgt \<or> _\<close> show ?thesis
      by (intro createConnection_duplicate) blast
  qed
  with True show ?thesis by simp
next
  case False
  then have "src \<noteq> tgt"
    and "\<forall>conn \<in> set (map snd (connections s)). \<not> (sourceId conn = src \<and> targetId conn = tgt)"
    by blast+
  from createConnection_success [OF this, of newId now type] False
  show ?thesis
    by (simp add: addToUndoStack_def AList.update_conv')
qed

text \<open>
  On the demo diagram with the connection \<^verbatim>\<open>conn-1\<close> from the planner to the executor,
  \<^verbatim>\<open>createConnection('agent-2', 'agent-9', 'control')\<close> is accepted, \<^verbatim>\<open>conn-1\<close> stays and
  \<^verbatim>\<open>conn-2\<close> is appended; no agent has the id \<^verbatim>\<open>agent-9\<close>.
\<close>

theorem createConnection_null_iff_witness:
  "map_of (agents (snd (createConnection ''conn-1'' 2000 ''agent-1'' ''agent-2'' ''data'' demo)))
     ''agent-9'' = None \<and>
   fst (createConnection ''conn-2'' 3000 ''agent-2'' ''agent-9'' ''control''
     (snd (createConnection ''conn-1'' 2000 ''agent-1'' ''agent-2'' ''data'' demo)))
     = Some \<lparr>c_id = ''conn-2'', sourceId = ''agent-2'', targetId = ''agent-9'',
              c_type = ''control'', c_createdAt = 3000\<rparr> \<and>
   connections (snd (createConnection ''conn-2'' 3000 ''agent-2'' ''agent-9'' ''control''
     (snd (createConnection ''conn-1'' 2000 ''agent-1'' ''agent-2'' ''data'' demo))))
     = [(''conn-1'', \<lparr>c_id = ''conn-1'', sourceId = ''agent-1'', targetId = ''agent-2'',
           c_type = ''data'', c_createdAt = 2000\<rparr>),
        (''conn-2'', \<lparr>c_id = ''conn-2'', sourceId = ''agent-2'', targetId = ''agent-9'',
           c_type = ''control'', c_createdAt = 3000\<rparr>)] \<and>
   agents (snd (createConnection ''conn-2'' 3000 ''agent-2'' ''agent-9'' ''control''
     (snd (createConnection ''conn-1'' 2000 ''agent-1'' ''agent-2'' ''data'' demo))))
     = agents demo"
proof -
  let ?s1 = "snd (createConnection ''conn-1'' 2000 ''agent-1'' ''agent-2'' ''data'' demo)"
  have s1: "connections ?s1 =
      [(''conn-1'', \<lparr>c_id = ''conn-1'', sourceId = ''agent-1'', targetId = ''agent-2'',
           c_type = ''data'', c_createdAt = 2000\<rparr>)]"
    and ag: "agents ?s1 = agents demo"
    by (simp_all add: demo_connect)
  have unknown: "map_of (agents ?s1) ''agent-9'' = None"
    unfolding ag by (simp add: demo_eval FlowDiagram_new_def)
  have accepted: "fst (createConnection ''conn-2'' 3000 ''agent-2'' ''agent-9'' ''control'' ?s1)
      \<noteq> None"
    using createConnection_null_iff
      [of "''conn-2''" 3000 "''agent-2''" "''agent-9''" "''control''" ?s1]
    by (simp add: s1)
  with createConnection_null_iff
      [of "''conn-2''" 3000 "''agent-2''" "''agent-9''" "''control''" ?s1]
  have "fst (createConnection ''conn-2'' 3000 ''agent-2'' ''agent-9'' ''control'' ?s1)
          = Some (AgentConnection_new ''conn-2'' 3000 ''agent-2'' ''agent-9'' ''control'')"
    and "connections (snd (createConnection ''conn-2'' 3000 ''agent-2'' ''agent-9'' ''control''
            ?s1))
          = AList.update ''conn-2''
              (AgentConnection_new ''conn-2'' 3000 ''agent-2'' ''agent-9'' ''control'')
              (connections ?s1)"
    and "agents (snd (createConnection ''conn-2'' 3000 ''agent-2'' ''agent-9'' ''control'' ?s1))
          = agents ?s1"
    by blast+
  with unknown show ?thesis
    by (simp add: s1 ag AgentConnection_new_def)
qed

text \<open>
  The claim as stated fails: in the demo diagram no agent has the id \<^verbatim>\<open>agent-9\<close>, and
  \<^verbatim>\<open>createConnection('agent-1', 'agent-9', 'data')\<close> returns a connection and stores it.
\<close>

theorem createConnection_unknown_id_counterexample:
  "map_of (agents demo) ''agent-9'' = None \<and>
   createConnection ''conn-1'' 2000 ''agent-1'' ''agent-9'' ''data'' demo \<noteq> (None, demo) \<and>
   connections demo = [] \<and>
   connections (snd (createConnection ''conn-1'' 2000 ''agent-1'' ''agent-9'' ''data'' demo))
     = [(''conn-1'', \<lparr>c_id = ''conn-1'', sourceId = ''agent-1'', targetId = ''agent-9'',
           c_type = ''data'', c_createdAt = 2000\<rparr>)]"
  by (simp add: demo_eval FlowDiagram_new_def createConnection_def AgentConnection_new_def
      addToUndoStack_def Let_def)

subsection \<open>Removing an agent\<close>

lemma fold_delete_keys:
  "fold (\<lambda>(k, c) m. if P c then AList.delete k m else m) xs m =
     filter (\<lambda>(k, c). k \<notin> set (map fst (filter (\<lambda>e. P (snd e)) xs))) m"
proof (induction xs arbitrary: m)
  case Nil
  then show ?case by simp
next
  case (Cons x xs)
  obtain kx cx where x: "x = (kx, cx)" by (cases x)
  show ?case
    by (auto simp: x Cons.IH AList.delete_eq intro!: filter_cong)
qed

lemma removeAgent_known:
  assumes "map_of (agents s) agentId = Some agent"
  shows "connections (removeAgent agentId s) =
           filter (\<lambda>(k, c). k \<notin> set (map fst (filter
                      (\<lambda>e. sourceId (snd e) = agentId \<or> targetId (snd e) = agentId)
                      (connections s))))
             (connections s)"
    and "agents (removeAgent agentId s) = AList.delete agentId (agents s)"
    and "selectedAgent (removeAgent agentId s) =
           (if selectedAgent s = Some agentId then None else selectedAgent s)"
    and "undoStack (removeAgent agentId s) = undoStack s"
    and "redoStack (removeAgent agentId s) = redoStack s"
  using assms by (simp_all add: removeAgent_def Let_def fold_delete_keys)

lemma removeAgent_unknown:
  "map_of (agents s) agentId = None \<Longrightarrow> removeAgent agentId s = s"
  by (simp add: removeAgent_def)

text \<open>
  With distinct keys, as in every \<^verbatim>\<open>Map\<close>, the connections that stay are exactly those
  that do not touch the agent, in their order.
\<close>

lemma removeAgent_connections_filter:
  assumes "map_of (agents s) agentId = Some agent"
    and "distinct (map fst (connections s))"
  shows "connections (removeAgent agentId s) =
           filter (\<lambda>(k, c). sourceId c \<noteq> agentId \<and> targetId c \<noteq> agentId) (connections s)"
proof -
  let ?Q = "\<lambda>e. sourceId (snd e) = agentId \<or> targetId (snd e) = agentId"
  have "(k \<notin> set (map fst (filter ?Q (connections s))))
        = (sourceId c \<noteq> agentId \<and> targetId c \<noteq> agentId)"
    if kc: "(k, c) \<in> set (connections s)" for k c
  proof
    assume notin: "k \<notin> set (map fst (filter ?Q (connections s)))"
    show "sourceId c \<noteq> agentId \<and> targetId c \<noteq> agentId"
    proof (rule ccontr)
      assume "\<not> (sourceId c \<noteq> agentId \<and> targetId c \<noteq> agentId)"
      then have "(k, c) \<in> set (filter ?Q (connections s))"
        using kc by simp
      then have "fst (k, c) \<in> fst ` set (filter ?Q (connections s))"
        by (rule imageI)
      with notin show False by simp
    qed
  next
    assume free: "sourceId c \<noteq> agentId \<and> targetId c \<noteq> agentId"
    show "k \<notin> set (map fst (filter ?Q (connections s)))"
    proof
      assume "k \<in> set (map fst (filter ?Q (connections s)))"
      then obtain c' where c': "(k, c') \<in> set (connections s)" and q: "?Q (k, c')"
        by auto
      have "c' = c"
        using assms(2) c' kc by (rule eq_key_imp_eq_value)
      with q free show False by simp
    qed
  qed
  then have "filter (\<lambda>(k, c). k \<notin> set (map fst (filter ?Q (connections s)))) (connections s)
      = filter (\<lambda>(k, c). sourceId c \<noteq> agentId \<and> targetId c \<noteq> agentId) (connections s)"
    by (intro filter_cong refl) (simp add: case_prod_beta)
  then show ?thesis
    by (simp only: removeAgent_known(1) [OF assms(1)])
qed

text \<open>
  Claim C1, as the code has it. For the id of an agent of the diagram, after
  \<^verbatim>\<open>removeAgent(id)\<close> no connection has that id as its source or as its target, the
  agent is gone, no connection was added, and a selection of that agent is cleared. For
  an id that is no agent's, \<^verbatim>\<open>removeAgent\<close> returns at once and changes nothing, so
  connections that dangle from such an id stay. On a diagram whose connections all join
  agents of the diagram, no connection touches the id after \<^verbatim>\<open>removeAgent(id)\<close>, for
  every id, and the connections still all join agents of the diagram.
\<close>

theorem removeAgent_cascades:
  "(map_of (agents s) agentId \<noteq> None \<longrightarrow>
      (\<forall>(k, c) \<in> set (connections (removeAgent agentId s)).
          sourceId c \<noteq> agentId \<and> targetId c \<noteq> agentId) \<and>
      map_of (agents (removeAgent agentId s)) agentId = None \<and>
      set (connections (removeAgent agentId s)) \<subseteq> set (connections s) \<and>
      (selectedAgent s = Some agentId \<longrightarrow> selectedAgent (removeAgent agentId s) = None)) \<and>
   (map_of (agents s) agentId = None \<longrightarrow> removeAgent agentId s = s) \<and>
   ((\<forall>(k, c) \<in> set (connections s).
        map_of (agents s) (sourceId c) \<noteq> None \<and> map_of (agents s) (targetId c) \<noteq> None) \<longrightarrow>
      (\<forall>(k, c) \<in> set (connections (removeAgent agentId s)).
          sourceId c \<noteq> agentId \<and> targetId c \<noteq> agentId \<and>
          map_of (agents (removeAgent agentId s)) (sourceId c) \<noteq> None \<and>
          map_of (agents (removeAgent agentId s)) (targetId c) \<noteq> None))"
proof -
  have known: "(\<forall>(k, c) \<in> set (connections (removeAgent agentId s)).
          sourceId c \<noteq> agentId \<and> targetId c \<noteq> agentId) \<and>
      map_of (agents (removeAgent agentId s)) agentId = None \<and>
      set (connections (removeAgent agentId s)) \<subseteq> set (connections s) \<and>
      (selectedAgent s = Some agentId \<longrightarrow> selectedAgent (removeAgent agentId s) = None)"
    if "map_of (agents s) agentId \<noteq> None"
  proof -
    from that obtain agent where a: "map_of (agents s) agentId = Some agent" by blast
    have "\<forall>(k, c) \<in> set (connections (removeAgent agentId s)).
            sourceId c \<noteq> agentId \<and> targetId c \<noteq> agentId"
      unfolding removeAgent_known(1) [OF a] by force
    moreover have "map_of (agents (removeAgent agentId s)) agentId = None"
      unfolding removeAgent_known(2) [OF a] by (simp add: AList.delete_conv')
    moreover have "set (connections (removeAgent agentId s)) \<subseteq> set (connections s)"
      unfolding removeAgent_known(1) [OF a] by auto
    moreover have "selectedAgent (removeAgent agentId s) = None"
      if "selectedAgent s = Some agentId"
      unfolding removeAgent_known(3) [OF a] using that by simp
    ultimately show ?thesis by blast
  qed
  have unknown: "removeAgent agentId s = s" if "map_of (agents s) agentId = None"
    using that by (rule removeAgent_unknown)
  have inv: "\<forall>(k, c) \<in> set (connections (removeAgent agentId s)).
          sourceId c \<noteq> agentId \<and> targetId c \<noteq> agentId \<and>
          map_of (agents (removeAgent agentId s)) (sourceId c) \<noteq> None \<and>
          map_of (agents (removeAgent agentId s)) (targetId c) \<noteq> None"
    if wf: "\<forall>(k, c) \<in> set (connections s).
        map_of (agents s) (sourceId c) \<noteq> None \<and> map_of (agents s) (targetId c) \<noteq> None"
  proof (cases "map_of (agents s) agentId")
    case None
    with wf show ?thesis
      by (auto simp: removeAgent_unknown)
  next
    case (Some agent)
    have ag: "map_of (agents (removeAgent agentId s)) x = map_of (agents s) x"
      if "x \<noteq> agentId" for x
      unfolding removeAgent_known(2) [OF Some] using that by simp
    have "sourceId c \<noteq> agentId \<and> targetId c \<noteq> agentId \<and>
          map_of (agents (removeAgent agentId s)) (sourceId c) \<noteq> None \<and>
          map_of (agents (removeAgent agentId s)) (targetId c) \<noteq> None"
      if kc: "(k, c) \<in> set (connections (removeAgent agentId s))" for k c
    proof -
      from known kc Some have ne: "sourceId c \<noteq> agentId" "targetId c \<noteq> agentId"
        and old: "(k, c) \<in> set (connections s)"
        by auto
      from wf old have "map_of (agents s) (sourceId c) \<noteq> None"
        and "map_of (agents s) (targetId c) \<noteq> None"
        by auto
      with ne show ?thesis by (simp add: ag)
    qed
    then show ?thesis by auto
  qed
  from known unknown inv show ?thesis by blast
qed

theorem removeAgent_cascades_witness:
  "map_of (agents demo_wired) ''agent-1'' \<noteq> None \<and>
   selectedAgent demo_wired = Some ''agent-1'' \<and>
   list_all (\<lambda>(k, c). map_of (agents demo_wired) (sourceId c) \<noteq> None \<and>
                       map_of (agents demo_wired) (targetId c) \<noteq> None)
     (connections demo_wired) \<and>
   length (connections demo_wired) = 3 \<and>
   connections (removeAgent ''agent-1'' demo_wired) =
     [(''conn-3'', \<lparr>c_id = ''conn-3'', sourceId = ''agent-2'', targetId = ''agent-3'',
           c_type = ''data'', c_createdAt = 4000\<rparr>)] \<and>
   map_of (agents (removeAgent ''agent-1'' demo_wired)) ''agent-1'' = None \<and>
   selectedAgent (removeAgent ''agent-1'' demo_wired) = None"
  using removeAgent_cascades [of demo_wired "''agent-1''"]
  by (simp add: removeAgent_def demo_wired_eval demo_eval Let_def FlowDiagram_new_def)


text \<open>
  The claim as stated fails at an id that is no agent's. On the demo diagram,
  \<^verbatim>\<open>createConnection('agent-1', 'agent-9', 'data')\<close> stores a connection to \<^verbatim>\<open>agent-9\<close>;
  \<^verbatim>\<open>removeAgent('agent-9')\<close> then finds no agent, returns before the cascade, and the
  connection whose target is \<^verbatim>\<open>agent-9\<close> is still there.
\<close>

theorem removeAgent_unknown_id_counterexample:
  "map_of (agents (snd (createConnection ''conn-1'' 2000 ''agent-1'' ''agent-9'' ''data'' demo)))
     ''agent-9'' = None \<and>
   connections (removeAgent ''agent-9''
     (snd (createConnection ''conn-1'' 2000 ''agent-1'' ''agent-9'' ''data'' demo)))
     = [(''conn-1'', \<lparr>c_id = ''conn-1'', sourceId = ''agent-1'', targetId = ''agent-9'',
           c_type = ''data'', c_createdAt = 2000\<rparr>)] \<and>
   targetId \<lparr>c_id = ''conn-1'', sourceId = ''agent-1'', targetId = ''agent-9'',
           c_type = ''data'', c_createdAt = 2000\<rparr> = ''agent-9''"
  by (simp add: removeAgent_def demo_eval FlowDiagram_new_def createConnection_def
      AgentConnection_new_def addToUndoStack_def Let_def)

subsection \<open>Undo and redo\<close>

lemma undo_empty: "undoStack s = [] \<Longrightarrow> undo s = s"
  by (simp add: undo_def)

lemma redo_empty: "redoStack s = [] \<Longrightarrow> redo s = s"
  by (simp add: redo_def)

lemma undo_created:
  assumes "undoStack s = rest @ [\<lparr>act_type = ''connection-created'', act_connection = c\<rparr>]"
  shows "undo s = s\<lparr>undoStack := rest,
                    redoStack := redoStack s
                      @ [\<lparr>act_type = ''connection-created'', act_connection = c\<rparr>],
                    connections := AList.delete (c_id c) (connections s)\<rparr>"
  using assms by (simp add: undo_def Let_def)

lemma redo_created:
  assumes "redoStack s = rest @ [\<lparr>act_type = ''connection-created'', act_connection = c\<rparr>]"
  shows "redo s = s\<lparr>redoStack := rest,
                    undoStack := undoStack s
                      @ [\<lparr>act_type = ''connection-created'', act_connection = c\<rparr>],
                    connections := AList.update (c_id c) c (connections s)\<rparr>"
  using assms by (simp add: redo_def Let_def)

text \<open>
  Claim C7. After a successful \<^verbatim>\<open>createConnection\<close>, \<^verbatim>\<open>undo()\<close> removes the entry of the
  new connection's id and no other; a following \<^verbatim>\<open>redo()\<close> stores the same connection
  under the same id again. When the generated id is new to the diagram, \<^verbatim>\<open>undo()\<close> gives
  back the connections as they were before the call, and \<^verbatim>\<open>redo()\<close> after it gives back
  the whole diagram as it was after the call. \<^verbatim>\<open>undo()\<close> with an empty undo stack and
  \<^verbatim>\<open>redo()\<close> with an empty redo stack change nothing, and \<^verbatim>\<open>addToUndoStack\<close> pushes the
  action and empties the redo stack.
\<close>

theorem undo_redo_createConnection:
  "(createConnection newId now a b type s = (Some c, s1) \<longrightarrow>
      c_id c = newId \<and>
      map_of (connections s1) newId = Some c \<and>
      map_of (connections (undo s1)) = (map_of (connections s1))(newId := None) \<and>
      map_of (connections (redo (undo s1))) = map_of (connections s1) \<and>
      (newId \<notin> fst ` set (connections s) \<longrightarrow>
         connections (undo s1) = connections s \<and> redo (undo s1) = s1)) \<and>
   (undoStack s = [] \<longrightarrow> undo s = s) \<and>
   (redoStack s = [] \<longrightarrow> redo s = s) \<and>
   redoStack (addToUndoStack action s) = [] \<and>
   undoStack (addToUndoStack action s) = undoStack s @ [action]"
proof (intro conjI impI)
  assume ok: "createConnection newId now a b type s = (Some c, s1)"
  let ?act = "\<lparr>act_type = ''connection-created'', act_connection = c\<rparr>"
  have c: "c = AgentConnection_new newId now a b type"
    and s1: "s1 = addToUndoStack ?act (s\<lparr>connections := AList.update newId c (connections s)\<rparr>)"
    using createConnection_Some(3,4) [OF ok] by simp_all
  show cid: "c_id c = newId"
    by (simp add: c AgentConnection_new_def)
  have stack: "undoStack s1 = undoStack s @ [?act]" and redo1: "redoStack s1 = []"
    and conns1: "connections s1 = AList.update newId c (connections s)"
    by (simp_all add: s1 addToUndoStack_def)
  have u: "undo s1 = s1\<lparr>undoStack := undoStack s, redoStack := [?act],
                         connections := AList.delete newId (connections s1)\<rparr>"
    using undo_created [OF stack] by (simp add: cid redo1)
  have r: "redo (undo s1) = s1\<lparr>connections :=
                 AList.update newId c (AList.delete newId (connections s1))\<rparr>"
    using redo_created [of "undo s1" "[]" c]
    by (simp add: u cid stack redo1)
  show "map_of (connections s1) newId = Some c"
    by (simp add: conns1 AList.update_conv')
  show "map_of (connections (undo s1)) = (map_of (connections s1))(newId := None)"
    by (simp add: u AList.delete_conv')
  show "map_of (connections (redo (undo s1))) = map_of (connections s1)"
    by (simp add: r conns1 AList.update_conv' AList.delete_conv')
  show "connections (undo s1) = connections s" if "newId \<notin> fst ` set (connections s)"
    using that by (simp add: u conns1 AList.delete_update_same)
  show "redo (undo s1) = s1" if "newId \<notin> fst ` set (connections s)"
    using that by (simp add: r conns1 AList.delete_update_same)
next
  show "undo s = s" if "undoStack s = []"
    using that by (rule undo_empty)
  show "redo s = s" if "redoStack s = []"
    using that by (rule redo_empty)
  show "redoStack (addToUndoStack action s) = []"
    by (simp add: addToUndoStack_def)
  show "undoStack (addToUndoStack action s) = undoStack s @ [action]"
    by (simp add: addToUndoStack_def)
qed

theorem undo_redo_createConnection_witness:
  "connections (snd (createConnection ''conn-1'' 2000 ''agent-1'' ''agent-2'' ''data'' demo))
     = [(''conn-1'', \<lparr>c_id = ''conn-1'', sourceId = ''agent-1'', targetId = ''agent-2'',
           c_type = ''data'', c_createdAt = 2000\<rparr>)] \<and>
   connections (undo (snd (createConnection ''conn-1'' 2000 ''agent-1'' ''agent-2'' ''data'' demo)))
     = [] \<and>
   redo (undo (snd (createConnection ''conn-1'' 2000 ''agent-1'' ''agent-2'' ''data'' demo)))
     = snd (createConnection ''conn-1'' 2000 ''agent-1'' ''agent-2'' ''data'' demo) \<and>
   undo demo = demo \<and> redo demo = demo"
  using undo_redo_createConnection
    [of "''conn-1''" 2000 "''agent-1''" "''agent-2''" "''data''" demo
      "\<lparr>c_id = ''conn-1'', sourceId = ''agent-1'', targetId = ''agent-2'',
            c_type = ''data'', c_createdAt = 2000\<rparr>"
      "snd (createConnection ''conn-1'' 2000 ''agent-1'' ''agent-2'' ''data'' demo)"
      "\<lparr>act_type = ''connection-removed'',
        act_connection = \<lparr>c_id = ''conn-1'', sourceId = ''agent-1'', targetId = ''agent-2'',
            c_type = ''data'', c_createdAt = 2000\<rparr>\<rparr>"]
  by (simp add: demo_connect)

subsection \<open>Undo and redo after an agent was removed\<close>

text \<open>
  The demo diagram through \<^verbatim>\<open>createConnection('agent-1', 'agent-2')\<close>,
  \<^verbatim>\<open>removeAgent('agent-1')\<close>, \<^verbatim>\<open>undo()\<close> and \<^verbatim>\<open>redo()\<close>, evaluated step by step.
\<close>

lemma demo_agents:
  "agents demo =
     [(''agent-1'', \<lparr>a_id = ''agent-1'', a_type = ''planner'', a_x = 150, a_y = 150,
         a_name = ''PlannerAgent'', a_status = ''idle'',
         a_capabilities = [''planning'', ''reasoning'', ''strategy''], a_createdAt = 1000\<rparr>),
      (''agent-2'', \<lparr>a_id = ''agent-2'', a_type = ''executor'', a_x = 350, a_y = 150,
         a_name = ''ExecutorAgent'', a_status = ''idle'',
         a_capabilities = [''execution'', ''action'', ''implementation''], a_createdAt = 1000\<rparr>),
      (''agent-3'', \<lparr>a_id = ''agent-3'', a_type = ''evaluator'', a_x = 250, a_y = 300,
         a_name = ''EvaluatorAgent'', a_status = ''idle'',
         a_capabilities = [''evaluation'', ''feedback'', ''assessment''], a_createdAt = 1000\<rparr>)]"
  by (simp add: demo_eval)

lemma demo_remove:
  "removeAgent ''agent-1''
      (snd (createConnection ''conn-1'' 2000 ''agent-1'' ''agent-2'' ''data'' demo))
   = demo\<lparr>agents := AList.delete ''agent-1'' (agents demo),
          connections := [],
          undoStack :=
             [\<lparr>act_type = ''connection-created'',
               act_connection = \<lparr>c_id = ''conn-1'', sourceId = ''agent-1'',
                 targetId = ''agent-2'', c_type = ''data'', c_createdAt = 2000\<rparr>\<rparr>],
          redoStack := []\<rparr>"
  by (simp add: demo_connect removeAgent_def Let_def demo_agents)

lemma demo_remove_undo:
  "undo (removeAgent ''agent-1''
      (snd (createConnection ''conn-1'' 2000 ''agent-1'' ''agent-2'' ''data'' demo)))
   = demo\<lparr>agents := AList.delete ''agent-1'' (agents demo),
          connections := [],
          undoStack := [],
          redoStack :=
             [\<lparr>act_type = ''connection-created'',
               act_connection = \<lparr>c_id = ''conn-1'', sourceId = ''agent-1'',
                 targetId = ''agent-2'', c_type = ''data'', c_createdAt = 2000\<rparr>\<rparr>]\<rparr>"
  by (simp add: demo_remove undo_def Let_def)

lemma demo_remove_undo_redo:
  "redo (undo (removeAgent ''agent-1''
      (snd (createConnection ''conn-1'' 2000 ''agent-1'' ''agent-2'' ''data'' demo))))
   = demo\<lparr>agents := AList.delete ''agent-1'' (agents demo),
          connections :=
             [(''conn-1'', \<lparr>c_id = ''conn-1'', sourceId = ''agent-1'', targetId = ''agent-2'',
                 c_type = ''data'', c_createdAt = 2000\<rparr>)],
          undoStack :=
             [\<lparr>act_type = ''connection-created'',
               act_connection = \<lparr>c_id = ''conn-1'', sourceId = ''agent-1'',
                 targetId = ''agent-2'', c_type = ''data'', c_createdAt = 2000\<rparr>\<rparr>],
          redoStack := []\<rparr>"
  by (simp add: demo_remove_undo redo_def Let_def)

lemma demo_disconnect_remove:
  "removeAgent ''agent-1'' (removeConnection ''conn-1''
      (snd (createConnection ''conn-1'' 2000 ''agent-1'' ''agent-2'' ''data'' demo)))
   = demo\<lparr>agents := AList.delete ''agent-1'' (agents demo),
          connections := [],
          undoStack :=
             [\<lparr>act_type = ''connection-created'',
               act_connection = \<lparr>c_id = ''conn-1'', sourceId = ''agent-1'',
                 targetId = ''agent-2'', c_type = ''data'', c_createdAt = 2000\<rparr>\<rparr>,
              \<lparr>act_type = ''connection-removed'',
               act_connection = \<lparr>c_id = ''conn-1'', sourceId = ''agent-1'',
                 targetId = ''agent-2'', c_type = ''data'', c_createdAt = 2000\<rparr>\<rparr>],
          redoStack := []\<rparr>"
  by (simp add: demo_connect removeConnection_def addToUndoStack_def removeAgent_def Let_def
      demo_agents)

text \<open>
  Claim C10. \<^verbatim>\<open>undo()\<close> of a \<^verbatim>\<open>connection-removed\<close> entry and \<^verbatim>\<open>redo()\<close> of a
  \<^verbatim>\<open>connection-created\<close> entry store the entry's connection under its id whatever the
  agents of the diagram are. So after \<^verbatim>\<open>createConnection('agent-1', 'agent-2')\<close>,
  \<^verbatim>\<open>removeAgent('agent-1')\<close>, \<^verbatim>\<open>undo()\<close> and \<^verbatim>\<open>redo()\<close> on the demo diagram, the connection
  from \<^verbatim>\<open>agent-1\<close> is in the diagram and the agent \<^verbatim>\<open>agent-1\<close> is not.
\<close>

theorem undo_redo_insert_unchecked:
  "(undoStack s \<noteq> [] \<and> act_type (last (undoStack s)) = ''connection-removed'' \<longrightarrow>
      map_of (connections (undo s)) (c_id (act_connection (last (undoStack s))))
        = Some (act_connection (last (undoStack s))) \<and>
      agents (undo s) = agents s) \<and>
   (redoStack s' \<noteq> [] \<and> act_type (last (redoStack s')) = ''connection-created'' \<longrightarrow>
      map_of (connections (redo s')) (c_id (act_connection (last (redoStack s'))))
        = Some (act_connection (last (redoStack s'))) \<and>
      agents (redo s') = agents s') \<and>
   map_of (connections (redo (undo (removeAgent ''agent-1''
      (snd (createConnection ''conn-1'' 2000 ''agent-1'' ''agent-2'' ''data'' demo))))))
      ''conn-1''
     = Some \<lparr>c_id = ''conn-1'', sourceId = ''agent-1'', targetId = ''agent-2'',
              c_type = ''data'', c_createdAt = 2000\<rparr> \<and>
   map_of (agents (redo (undo (removeAgent ''agent-1''
      (snd (createConnection ''conn-1'' 2000 ''agent-1'' ''agent-2'' ''data'' demo))))))
      ''agent-1''
     = None"
proof (intro conjI impI)
  assume "undoStack s \<noteq> [] \<and> act_type (last (undoStack s)) = ''connection-removed''"
  then show "map_of (connections (undo s)) (c_id (act_connection (last (undoStack s))))
        = Some (act_connection (last (undoStack s)))"
    and "agents (undo s) = agents s"
    by (simp_all add: undo_def Let_def AList.update_conv')
next
  assume "redoStack s' \<noteq> [] \<and> act_type (last (redoStack s')) = ''connection-created''"
  then show "map_of (connections (redo s')) (c_id (act_connection (last (redoStack s'))))
        = Some (act_connection (last (redoStack s')))"
    and "agents (redo s') = agents s'"
    by (simp_all add: redo_def Let_def AList.update_conv')
next
  show "map_of (connections (redo (undo (removeAgent ''agent-1''
      (snd (createConnection ''conn-1'' 2000 ''agent-1'' ''agent-2'' ''data'' demo))))))
      ''conn-1''
     = Some \<lparr>c_id = ''conn-1'', sourceId = ''agent-1'', targetId = ''agent-2'',
              c_type = ''data'', c_createdAt = 2000\<rparr>"
    by (simp add: demo_remove_undo_redo)
  show "map_of (agents (redo (undo (removeAgent ''agent-1''
      (snd (createConnection ''conn-1'' 2000 ''agent-1'' ''agent-2'' ''data'' demo))))))
      ''agent-1''
     = None"
    by (simp add: demo_remove_undo_redo demo_agents)
qed

text \<open>
  The same at an \<^verbatim>\<open>undo()\<close>: the connection is removed with \<^verbatim>\<open>removeConnection\<close>, its
  source agent is removed, and \<^verbatim>\<open>undo()\<close> puts the connection back.
\<close>

theorem undo_redo_insert_unchecked_witness:
  "map_of (connections (undo (removeAgent ''agent-1'' (removeConnection ''conn-1''
      (snd (createConnection ''conn-1'' 2000 ''agent-1'' ''agent-2'' ''data'' demo))))))
      ''conn-1''
     = Some \<lparr>c_id = ''conn-1'', sourceId = ''agent-1'', targetId = ''agent-2'',
              c_type = ''data'', c_createdAt = 2000\<rparr> \<and>
   map_of (agents (undo (removeAgent ''agent-1'' (removeConnection ''conn-1''
      (snd (createConnection ''conn-1'' 2000 ''agent-1'' ''agent-2'' ''data'' demo))))))
      ''agent-1''
     = None \<and>
   map_of (connections (redo (undo (removeAgent ''agent-1''
      (snd (createConnection ''conn-1'' 2000 ''agent-1'' ''agent-2'' ''data'' demo))))))
      ''conn-1''
     = Some \<lparr>c_id = ''conn-1'', sourceId = ''agent-1'', targetId = ''agent-2'',
              c_type = ''data'', c_createdAt = 2000\<rparr>"
  using undo_redo_insert_unchecked
    [of "removeAgent ''agent-1'' (removeConnection ''conn-1''
          (snd (createConnection ''conn-1'' 2000 ''agent-1'' ''agent-2'' ''data'' demo)))"
        "undo (removeAgent ''agent-1''
          (snd (createConnection ''conn-1'' 2000 ''agent-1'' ''agent-2'' ''data'' demo)))"]
  by (simp add: demo_disconnect_remove demo_remove_undo demo_remove_undo_redo demo_agents
      undo_def Let_def)


subsection \<open>Cycle detection\<close>

text \<open>
  A call of \<open>hasCycle\<close> with enough fuel returns, and what it returns is whether the
  agent is on the recursion stack at the call: the verdicts of the calls inside the
  \<^verbatim>\<open>forEach\<close> are dropped. The set \<open>T\<close> holds the ids the search can reach; every call
  that does not return at once adds one of them to \<open>visited\<close>.
\<close>

lemma forEach_hasCycle_total:
  assumes IH: "\<And>agentId st. agentId \<in> T \<Longrightarrow> card (T - visited st) < fuel \<Longrightarrow>
            \<exists>st'. hasCycle fuel conns agentId st = Some (agentId \<in> recursionStack st, st')
                  \<and> visited st \<subseteq> visited st' \<and> recursionStack st' = recursionStack st"
    and fin: "finite T"
    and tgt: "targetId ` set cs \<subseteq> T"
    and small: "card (T - visited st) < fuel"
  shows "\<exists>st'. forEach (\<lambda>connection st'.
                   if sourceId connection = a
                   then hasCycle fuel conns (targetId connection) st'
                   else Some (False, st')) cs st = Some st'
               \<and> visited st \<subseteq> visited st' \<and> recursionStack st' = recursionStack st"
  using tgt small
proof (induction cs arbitrary: st)
  case Nil
  then show ?case by simp
next
  case (Cons c cs)
  let ?cb = "\<lambda>connection st'.
                   if sourceId connection = a
                   then hasCycle fuel conns (targetId connection) st'
                   else Some (False, st')"
  have "\<exists>r st1. ?cb c st = Some (r, st1) \<and> visited st \<subseteq> visited st1
          \<and> recursionStack st1 = recursionStack st"
  proof (cases "sourceId c = a")
    case True
    have "targetId c \<in> T" using Cons.prems(1) by auto
    from IH [OF this Cons.prems(2)] True show ?thesis by auto
  next
    case False
    then have "?cb c st = Some (False, st)" by simp
    then show ?thesis by blast
  qed
  then obtain r st1 where cb: "?cb c st = Some (r, st1)"
    and mono: "visited st \<subseteq> visited st1" and rs: "recursionStack st1 = recursionStack st"
    by blast
  have "card (T - visited st1) \<le> card (T - visited st)"
    using mono fin by (intro card_mono) auto
  with Cons.prems(2) have small1: "card (T - visited st1) < fuel" by simp
  have "targetId ` set cs \<subseteq> T" using Cons.prems(1) by auto
  from Cons.IH [OF this small1] obtain st2 where
    "forEach ?cb cs st1 = Some st2" "visited st1 \<subseteq> visited st2"
    "recursionStack st2 = recursionStack st1"
    by blast
  with cb mono rs show ?case by auto
qed

lemma hasCycle_total:
  assumes "finite T" and "targetId ` set conns \<subseteq> T"
  shows "agentId \<in> T \<Longrightarrow> card (T - visited st) < fuel \<Longrightarrow>
            \<exists>st'. hasCycle fuel conns agentId st = Some (agentId \<in> recursionStack st, st')
                  \<and> visited st \<subseteq> visited st' \<and> recursionStack st' = recursionStack st"
proof (induction fuel arbitrary: agentId st)
  case 0
  then show ?case by simp
next
  case (Suc fuel)
  show ?case
  proof (cases "agentId \<in> recursionStack st \<or> agentId \<in> visited st")
    case True
    then show ?thesis by auto
  next
    case False
    let ?st0 = "st\<lparr>visited := insert agentId (visited st),
                    recursionStack := insert agentId (recursionStack st)\<rparr>"
    have "agentId \<in> T - visited st" using False Suc.prems(1) by simp
    then have "card (T - insert agentId (visited st)) < card (T - visited st)"
      using assms(1)
      by (intro psubset_card_mono) auto
    with Suc.prems(2) have small: "card (T - visited ?st0) < fuel" by simp
    from forEach_hasCycle_total [of T fuel conns conns ?st0 agentId, OF Suc.IH assms(1,2) small]
    obtain st1 where fe: "forEach (\<lambda>connection st'.
                   if sourceId connection = agentId
                   then hasCycle fuel conns (targetId connection) st'
                   else Some (False, st')) conns ?st0 = Some st1"
      and mono: "visited ?st0 \<subseteq> visited st1"
      and rs: "recursionStack st1 = recursionStack ?st0"
      by blast
    from False fe mono rs show ?thesis by auto
  qed
qed

lemma hasCycle_top_level:
  assumes "length conns + 2 \<le> fuel"
  shows "\<exists>st'. hasCycle fuel conns agentId st = Some (agentId \<in> recursionStack st, st')
               \<and> recursionStack st' = recursionStack st"
proof -
  let ?T = "insert agentId (targetId ` set conns)"
  have "card ?T \<le> Suc (card (targetId ` set conns))"
    by (simp add: card_insert_le_m1 card_insert_if)
  also have "\<dots> \<le> Suc (length conns)"
    using card_image_le [of "set conns" targetId] card_length [of conns] by simp
  finally have "card ?T \<le> Suc (length conns)" .
  moreover have "card (?T - visited st) \<le> card ?T"
    by (intro card_mono) auto
  ultimately have "card (?T - visited st) < fuel"
    using assms by simp
  from hasCycle_total [of ?T conns agentId st fuel, OF _ _ _ this]
  show ?thesis by auto
qed

lemma checkEachAgent_False:
  assumes "length conns + 2 \<le> fuel"
  shows "recursionStack st = {} \<Longrightarrow> checkEachAgent fuel conns ks st = Some False"
proof (induction ks arbitrary: st)
  case Nil
  then show ?case by simp
next
  case (Cons k ks)
  from hasCycle_top_level [OF assms, of k st] Cons.prems
  obtain st' where "hasCycle fuel conns k st = Some (False, st')" "recursionStack st' = {}"
    by auto
  with Cons.IH [of st'] show ?case by simp
qed

text \<open>
  So \<open>detectCircularLoops\<close> returns, and returns \<^verbatim>\<open>false\<close>, on every diagram: the recursion
  stack is empty at each call of the loop over the agents.
\<close>

lemma detectCircularLoops_False:
  "length (connections s) + 2 \<le> fuel \<Longrightarrow> detectCircularLoops fuel s = Some False"
  by (simp add: detectCircularLoops_def checkEachAgent_False)

subsection \<open>The result of validateFlow\<close>

lemma fold_insert_ends:
  "fold (\<lambda>connection acc. insert (targetId connection) (insert (sourceId connection) acc)) cs A
     = A \<union> sourceId ` set cs \<union> targetId ` set cs"
  by (induction cs arbitrary: A) auto

lemma fold_push_if:
  "fold (\<lambda>x ws. if P x then ws @ [f x] else ws) xs ws0 = ws0 @ map f (filter P xs)"
  by (induction xs arbitrary: ws0) auto

lemma validateFlow_Some:
  assumes "length (connections s) + 2 \<le> fuel"
  shows "validateFlow fuel s =
     Some \<lparr>isValid =
              (length (filter (\<lambda>a. a_type a = ''planner'') (map snd (agents s))) \<noteq> 0 \<and>
               length (filter (\<lambda>a. a_type a = ''executor'') (map snd (agents s))) \<noteq> 0),
           errors =
              (if length (filter (\<lambda>a. a_type a = ''planner'') (map snd (agents s))) = 0
               then [''Missing Planner agent''] else []) @
              (if length (filter (\<lambda>a. a_type a = ''executor'') (map snd (agents s))) = 0
               then [''Missing Executor agent''] else []),
           warnings =
              map (\<lambda>agent. ''Agent '' @ [CHR 0x22] @ a_name agent @ [CHR 0x22]
                             @ '' is not connected'')
                (filter (\<lambda>agent. a_id agent \<notin> sourceId ` set (map snd (connections s))
                                            \<union> targetId ` set (map snd (connections s)))
                   (map snd (agents s)))\<rparr>"
  unfolding validateFlow_def Let_def detectCircularLoops_False [OF assms]
    fold_insert_ends fold_push_if
  by simp

text \<open>
  Claim C2, at a 3-cycle. The wired demo diagram has the connections
  \<^verbatim>\<open>agent-1\<close> to \<^verbatim>\<open>agent-2\<close>, \<^verbatim>\<open>agent-2\<close> to \<^verbatim>\<open>agent-3\<close> and \<^verbatim>\<open>agent-3\<close> to \<^verbatim>\<open>agent-1\<close>, a
  planner and an executor. \<^verbatim>\<open>detectCircularLoops\<close> returns \<^verbatim>\<open>false\<close> on it and
  \<^verbatim>\<open>validateFlow\<close> returns no error and \<^verbatim>\<open>isValid = true\<close>.
\<close>

theorem validateFlow_three_cycle:
  "map (\<lambda>c. (sourceId c, targetId c)) (map snd (connections demo_wired))
     = [(''agent-1'', ''agent-2''), (''agent-3'', ''agent-1''), (''agent-2'', ''agent-3'')] \<and>
   detectCircularLoops 5 demo_wired = Some False \<and>
   validateFlow 5 demo_wired = Some \<lparr>isValid = True, errors = [], warnings = []\<rparr>"
proof (intro conjI)
  show "map (\<lambda>c. (sourceId c, targetId c)) (map snd (connections demo_wired))
     = [(''agent-1'', ''agent-2''), (''agent-3'', ''agent-1''), (''agent-2'', ''agent-3'')]"
    by (simp add: demo_wired_eval)
  have len: "length (connections demo_wired) + 2 \<le> 5"
    by (simp add: demo_wired_eval)
  show "detectCircularLoops 5 demo_wired = Some False"
    using len by (rule detectCircularLoops_False)
  show "validateFlow 5 demo_wired = Some \<lparr>isValid = True, errors = [], warnings = []\<rparr>"
    unfolding validateFlow_Some [OF len]
    by (simp add: demo_wired_eval demo_agents)
qed

text \<open>
  Claim C8. \<^verbatim>\<open>validateFlow\<close> returns a result whose warnings are, in the order of the
  agents, one \<^verbatim>\<open>Agent "<name>" is not connected\<close> for each agent whose id is neither the
  source nor the target of a connection, and nothing else; and \<^verbatim>\<open>isValid\<close> is
  \<^verbatim>\<open>errors.length === 0\<close>.
\<close>

theorem validateFlow_warnings_and_validity:
  assumes "length (connections s) + 2 \<le> fuel"
  shows "\<exists>r. validateFlow fuel s = Some r \<and>
           warnings r =
             map (\<lambda>agent. ''Agent '' @ [CHR 0x22] @ a_name agent @ [CHR 0x22]
                            @ '' is not connected'')
               (filter (\<lambda>agent. \<forall>c \<in> set (map snd (connections s)).
                                   sourceId c \<noteq> a_id agent \<and> targetId c \<noteq> a_id agent)
                  (map snd (agents s))) \<and>
           isValid r = (errors r = [])"
proof -
  have eq: "(\<lambda>agent. a_id agent \<notin> sourceId ` set (map snd (connections s))
                       \<union> targetId ` set (map snd (connections s)))
        = (\<lambda>agent. \<forall>c \<in> set (map snd (connections s)).
             sourceId c \<noteq> a_id agent \<and> targetId c \<noteq> a_id agent)"
    by (rule ext) (force simp: image_iff)
  show ?thesis
    unfolding validateFlow_Some [OF assms] eq by simp
qed

lemma demo_connect_validate:
  "validateFlow 3 (snd (createConnection ''conn-1'' 2000 ''agent-1'' ''agent-2'' ''data'' demo))
     = Some \<lparr>isValid = True, errors = [],
             warnings = [''Agent '' @ [CHR 0x22] @ ''EvaluatorAgent'' @ [CHR 0x22]
                          @ '' is not connected'']\<rparr>"
proof -
  have "length (connections
      (snd (createConnection ''conn-1'' 2000 ''agent-1'' ''agent-2'' ''data'' demo))) + 2 \<le> 3"
    by (simp add: demo_connect)
  from validateFlow_Some [OF this] show ?thesis
    by (simp add: demo_connect demo_agents)
qed

theorem validateFlow_warnings_witness:
  "length (connections
      (snd (createConnection ''conn-1'' 2000 ''agent-1'' ''agent-2'' ''data'' demo))) + 2 \<le> 3 \<and>
   validateFlow 3 (snd (createConnection ''conn-1'' 2000 ''agent-1'' ''agent-2'' ''data'' demo))
     = Some \<lparr>isValid = True, errors = [],
             warnings = [''Agent '' @ [CHR 0x22] @ ''EvaluatorAgent'' @ [CHR 0x22]
                          @ '' is not connected'']\<rparr>"
proof -
  have len: "length (connections
      (snd (createConnection ''conn-1'' 2000 ''agent-1'' ''agent-2'' ''data'' demo))) + 2 \<le> 3"
    by (simp add: demo_connect)
  from validateFlow_warnings_and_validity [OF len] demo_connect_validate len
  show ?thesis by blast
qed

subsection \<open>Missing roles\<close>

lemma demo_without_planner_and_executor:
  "removeAgent ''agent-2'' (removeAgent ''agent-1'' demo)
     = demo\<lparr>agents :=
          [(''agent-3'', \<lparr>a_id = ''agent-3'', a_type = ''evaluator'', a_x = 250, a_y = 300,
             a_name = ''EvaluatorAgent'', a_status = ''idle'',
             a_capabilities = [''evaluation'', ''feedback'', ''assessment''],
             a_createdAt = 1000\<rparr>)]\<rparr>"
  by (simp add: removeAgent_def Let_def demo_agents)

lemma demo_without_planner_and_executor_validate:
  "validateFlow 2 (removeAgent ''agent-2'' (removeAgent ''agent-1'' demo))
     = Some \<lparr>isValid = False,
             errors = [''Missing Planner agent'', ''Missing Executor agent''],
             warnings = [''Agent '' @ [CHR 0x22] @ ''EvaluatorAgent'' @ [CHR 0x22]
                          @ '' is not connected'']\<rparr>"
proof -
  have "length (connections (removeAgent ''agent-2'' (removeAgent ''agent-1'' demo))) + 2 \<le> 2"
    by (simp add: demo_without_planner_and_executor)
  from validateFlow_Some [OF this] show ?thesis
    by (simp add: demo_without_planner_and_executor)
qed

text \<open>
  Claim C9, as the code has it. When no agent has the type \<^verbatim>\<open>planner\<close> and none has the
  type \<^verbatim>\<open>executor\<close>, \<^verbatim>\<open>validateFlow\<close> returns errors that contain
  \<^verbatim>\<open>Missing Planner agent\<close> and \<^verbatim>\<open>Missing Executor agent\<close>, and \<^verbatim>\<open>isValid\<close> is \<^verbatim>\<open>false\<close>.
\<close>

theorem validateFlow_missing_roles:
  assumes "length (connections s) + 2 \<le> fuel"
    and "\<forall>a \<in> set (map snd (agents s)). a_type a \<noteq> ''planner'' \<and> a_type a \<noteq> ''executor''"
  shows "\<exists>r. validateFlow fuel s = Some r \<and>
           ''Missing Planner agent'' \<in> set (errors r) \<and>
           ''Missing Executor agent'' \<in> set (errors r) \<and>
           isValid r = False"
proof -
  have "filter (\<lambda>a. a_type a = ''planner'') (map snd (agents s)) = []"
    and "filter (\<lambda>a. a_type a = ''executor'') (map snd (agents s)) = []"
    using assms(2) by (simp_all add: filter_empty_conv)
  then show ?thesis
    unfolding validateFlow_Some [OF assms(1)] by simp
qed

theorem validateFlow_missing_roles_witness:
  "map a_type (map snd (agents (removeAgent ''agent-2'' (removeAgent ''agent-1'' demo))))
     = [''evaluator''] \<and>
   validateFlow 2 (removeAgent ''agent-2'' (removeAgent ''agent-1'' demo))
     = Some \<lparr>isValid = False,
             errors = [''Missing Planner agent'', ''Missing Executor agent''],
             warnings = [''Agent '' @ [CHR 0x22] @ ''EvaluatorAgent'' @ [CHR 0x22]
                          @ '' is not connected'']\<rparr>"
proof -
  have types: "map a_type (map snd (agents (removeAgent ''agent-2''
      (removeAgent ''agent-1'' demo)))) = [''evaluator'']"
    by (simp add: demo_without_planner_and_executor)
  have "\<exists>r. validateFlow 2 (removeAgent ''agent-2'' (removeAgent ''agent-1'' demo)) = Some r \<and>
           ''Missing Planner agent'' \<in> set (errors r) \<and>
           ''Missing Executor agent'' \<in> set (errors r) \<and>
           isValid r = False"
    by (rule validateFlow_missing_roles) (simp_all add: demo_without_planner_and_executor)
  with types demo_without_planner_and_executor_validate show ?thesis
    by blast
qed

text \<open>
  The claim as stated fails on the texts: after the planner and the executor of the demo
  diagram are removed, the errors hold neither \<^verbatim>\<open>Missing planner\<close> nor
  \<^verbatim>\<open>Missing executor\<close>.
\<close>

theorem validateFlow_missing_roles_counterexample:
  "validateFlow 2 (removeAgent ''agent-2'' (removeAgent ''agent-1'' demo))
     = Some \<lparr>isValid = False,
             errors = [''Missing Planner agent'', ''Missing Executor agent''],
             warnings = [''Agent '' @ [CHR 0x22] @ ''EvaluatorAgent'' @ [CHR 0x22]
                          @ '' is not connected'']\<rparr> \<and>
   ''Missing planner'' \<notin> set [''Missing Planner agent'', ''Missing Executor agent''] \<and>
   ''Missing executor'' \<notin> set [''Missing Planner agent'', ''Missing Executor agent'']"
  by (simp add: demo_without_planner_and_executor_validate)


subsection \<open>Export and import\<close>

text \<open>
  \<^verbatim>\<open>fromJSON\<close> gives back the agent that \<^verbatim>\<open>toJSON\<close> was called on when the agent's name
  is not empty, and always gives back the connection; neither depends on the id and the
  time that the constructor draws.
\<close>

lemma AgentNode_roundtrip:
  "a_name agent \<noteq> [] \<Longrightarrow> AgentNode_fromJSON newId now (AgentNode_toJSON agent) = agent"
  by (simp add: AgentNode_fromJSON_def AgentNode_toJSON_def AgentNode_new_def Let_def)

lemma AgentConnection_roundtrip:
  "AgentConnection_fromJSON newId now (AgentConnection_toJSON conn) = conn"
  by (simp add: AgentConnection_fromJSON_def AgentConnection_toJSON_def
      AgentConnection_new_def Let_def)

lemma fold_update_fresh:
  "distinct (map fst (acc @ xs)) \<Longrightarrow>
     fold (\<lambda>(k, v) m. AList.update k v m) xs acc = acc @ xs"
proof (induction xs arbitrary: acc)
  case Nil
  then show ?case by simp
next
  case (Cons x xs)
  obtain k v where x: "x = (k, v)" by (cases x)
  have fresh: "k \<notin> fst ` set acc" using Cons.prems by (auto simp: x)
  have upd: "AList.update k v acc = acc @ [(k, v)]"
    using fresh by (induction acc) auto
  have "distinct (map fst ((acc @ [(k, v)]) @ xs))"
    using Cons.prems by (simp add: x)
  from Cons.IH [OF this] show ?case
    by (simp add: x upd)
qed

lemma fold_import_entries:
  assumes "\<forall>(k, v) \<in> set xs. k = key v \<and> back (there v) = v"
  shows "fold (\<lambda>d m. (let v = back d in AList.update (key v) v m)) (map there (map snd xs)) acc
       = fold (\<lambda>(k, v) m. AList.update k v m) xs acc"
  using assms by (induction xs arbitrary: acc) (auto simp: Let_def)

text \<open>
  On a diagram whose keys are the ids of their entries, as \<^verbatim>\<open>createAgent\<close>,
  \<^verbatim>\<open>createConnection\<close> and \<^verbatim>\<open>import\<close> store them, and whose agents all have a name,
  \<^verbatim>\<open>import(export())\<close> restores the agents and the connections, with their ids, fields
  and order, and leaves every other field of the importing diagram as it is.
\<close>

lemma import_export_roundtrip:
  assumes "distinct (map fst (agents s))" and "distinct (map fst (connections s))"
    and "\<forall>(k, agent) \<in> set (agents s). k = a_id agent \<and> a_name agent \<noteq> []"
    and "\<forall>(k, conn) \<in> set (connections s). k = c_id conn"
  shows "importFlow newId now (exportFlow s) s' = s'\<lparr>agents := agents s, connections := connections s\<rparr>"
proof -
  have "\<forall>(k, v) \<in> set (agents s).
          k = a_id v \<and> AgentNode_fromJSON newId now (AgentNode_toJSON v) = v"
    using assms(3) by (auto simp: AgentNode_roundtrip)
  from fold_import_entries
         [of "agents s" a_id "AgentNode_fromJSON newId now" AgentNode_toJSON "[]", OF this]
    fold_update_fresh [of "[]" "agents s"] assms(1)
  have a: "fold (\<lambda>d m. (let v = AgentNode_fromJSON newId now d in AList.update (a_id v) v m))
             (map AgentNode_toJSON (map snd (agents s))) [] = agents s"
    by simp
  have "\<forall>(k, v) \<in> set (connections s).
          k = c_id v \<and> AgentConnection_fromJSON newId now (AgentConnection_toJSON v) = v"
    using assms(4) by (auto simp: AgentConnection_roundtrip)
  from fold_import_entries
         [of "connections s" c_id "AgentConnection_fromJSON newId now"
            AgentConnection_toJSON "[]", OF this]
    fold_update_fresh [of "[]" "connections s"] assms(2)
  have c: "fold (\<lambda>d m. (let v = AgentConnection_fromJSON newId now d
                         in AList.update (c_id v) v m))
             (map AgentConnection_toJSON (map snd (connections s))) [] = connections s"
    by simp
  from a c show ?thesis
    by (simp add: importFlow_def exportFlow_def Let_def)
qed

lemma demo_unnamed_agents:
  "agents demo_unnamed =
     [(''agent-1'', \<lparr>a_id = ''agent-1'', a_type = ''planner'', a_x = 150, a_y = 150,
         a_name = [], a_status = ''idle'',
         a_capabilities = [''planning'', ''reasoning'', ''strategy''], a_createdAt = 1000\<rparr>),
      (''agent-2'', \<lparr>a_id = ''agent-2'', a_type = ''executor'', a_x = 350, a_y = 150,
         a_name = ''ExecutorAgent'', a_status = ''idle'',
         a_capabilities = [''execution'', ''action'', ''implementation''], a_createdAt = 1000\<rparr>),
      (''agent-3'', \<lparr>a_id = ''agent-3'', a_type = ''evaluator'', a_x = 250, a_y = 300,
         a_name = ''EvaluatorAgent'', a_status = ''idle'',
         a_capabilities = [''evaluation'', ''feedback'', ''assessment''], a_createdAt = 1000\<rparr>)]"
  by (simp add: demo_unnamed_def updateAgentProperty_def demo_agents)

lemma demo_unnamed_import:
  "agents (importFlow newId now (exportFlow demo_unnamed) demo_unnamed) =
     [(''agent-1'', \<lparr>a_id = ''agent-1'', a_type = ''planner'', a_x = 150, a_y = 150,
         a_name = ''PlannerAgent'', a_status = ''idle'',
         a_capabilities = [''planning'', ''reasoning'', ''strategy''], a_createdAt = 1000\<rparr>),
      (''agent-2'', \<lparr>a_id = ''agent-2'', a_type = ''executor'', a_x = 350, a_y = 150,
         a_name = ''ExecutorAgent'', a_status = ''idle'',
         a_capabilities = [''execution'', ''action'', ''implementation''], a_createdAt = 1000\<rparr>),
      (''agent-3'', \<lparr>a_id = ''agent-3'', a_type = ''evaluator'', a_x = 250, a_y = 300,
         a_name = ''EvaluatorAgent'', a_status = ''idle'',
         a_capabilities = [''evaluation'', ''feedback'', ''assessment''], a_createdAt = 1000\<rparr>)]"
  by (simp add: importFlow_def exportFlow_def Let_def demo_unnamed_agents AgentNode_fromJSON_def
      AgentNode_toJSON_def AgentNode_new_def generateName_def)

text \<open>
  Claim C3, at an agent without a name. After the name field of the planner of the demo
  diagram was cleared, \<^verbatim>\<open>import(export())\<close> gives the planner the name \<^verbatim>\<open>PlannerAgent\<close>:
  \<^verbatim>\<open>fromJSON\<close> passes the name to the constructor, whose \<^verbatim>\<open>name || generateName(type)\<close>
  replaces the empty string. The agents after the round trip are not the agents before.
\<close>

theorem import_export_empty_name:
  "map (\<lambda>(k, agent). (k, a_name agent)) (agents demo_unnamed)
     = [(''agent-1'', []), (''agent-2'', ''ExecutorAgent''), (''agent-3'', ''EvaluatorAgent'')] \<and>
   map (\<lambda>(k, agent). (k, a_name agent))
     (agents (importFlow newId now (exportFlow demo_unnamed) demo_unnamed))
     = [(''agent-1'', ''PlannerAgent''), (''agent-2'', ''ExecutorAgent''),
        (''agent-3'', ''EvaluatorAgent'')] \<and>
   agents (importFlow newId now (exportFlow demo_unnamed) demo_unnamed) \<noteq> agents demo_unnamed"
  by (simp add: demo_unnamed_import demo_unnamed_agents)

subsection \<open>Zooming with the wheel\<close>

text \<open>
  The model point under the mouse before and after \<^verbatim>\<open>handleWheel\<close>, for a positive
  scale: the point moves by \<open>(1 - newScale / scale) * (sx - before) / newScale\<close>, where
  \<open>sx\<close> is the mouse's coordinate on the canvas. \<^verbatim>\<open>handleWheel\<close> puts the model point
  \<^verbatim>\<open>mousePos\<close> where the anchor formula takes the screen point, so the point under the
  mouse stays only when the scale does not change or when the screen and the model
  coordinate are the same number.
\<close>

lemma zoom_shift:
  assumes "canvas s = Some rect" and "scale s > 0"
  shows "\<exists>before after.
           getMousePosition e s = Some before \<and>
           getMousePosition e (handleWheel e s) = Some after \<and>
           p_x after - p_x before
             = (1 - scale (handleWheel e s) / scale s)
               * ((clientX e - rect_left rect) - p_x before) / scale (handleWheel e s)"
proof -
  have pos: "scale (handleWheel e s) > 0"
    by (simp add: handleWheel_def Let_def max_def)
  show ?thesis
    using assms pos
    apply (simp add: getMousePosition_def handleWheel_def Let_def)
    apply (simp add: field_simps)
    done
qed

lemma demo_zoomed_eval:
  "demo_zoomed = demo\<lparr>canvas := Some \<lparr>rect_left = 0, rect_top = 0\<rparr>,
                       offsetX := - 10, offsetY := - 10, scale := 11 / 10\<rparr>"
  by (simp add: demo_zoomed_def handleWheel_def getMousePosition_def Let_def demo_eval
      FlowDiagram_new_def)

lemma demo_zoomed_again:
  "handleWheel wheel_at_200 demo_zoomed =
     demo\<lparr>canvas := Some \<lparr>rect_left = 0, rect_top = 0\<rparr>,
          offsetX := - (331 / 11), offsetY := - (331 / 11), scale := 121 / 100\<rparr>"
  by (simp add: demo_zoomed_eval handleWheel_def getMousePosition_def wheel_at_200_def Let_def)

text \<open>
  Claim C6, at a second wheel event. The demo diagram was zoomed in once at the client
  point (100, 100), which leaves the scale 1.1 and the offset (-10, -10). A wheel event
  at (200, 200) then has the model point (2100/11, 2100/11), about 190.91, under the
  mouse before \<^verbatim>\<open>handleWheel\<close> and (253100/1331, 253100/1331), about 190.16, after it.
\<close>

theorem handleWheel_moves_anchor:
  "scale demo_zoomed = 11 / 10 \<and>
   getMousePosition wheel_at_200 demo_zoomed = Some \<lparr>p_x = 2100 / 11, p_y = 2100 / 11\<rparr> \<and>
   getMousePosition wheel_at_200 (handleWheel wheel_at_200 demo_zoomed)
     = Some \<lparr>p_x = 253100 / 1331, p_y = 253100 / 1331\<rparr> \<and>
   (2100 / 11 - 253100 / 1331 :: real) = 1000 / 1331"
proof (intro conjI)
  show "scale demo_zoomed = 11 / 10"
    by (simp add: demo_zoomed_eval)
  show "getMousePosition wheel_at_200 demo_zoomed = Some \<lparr>p_x = 2100 / 11, p_y = 2100 / 11\<rparr>"
    by (simp add: demo_zoomed_eval getMousePosition_def wheel_at_200_def)
  show "getMousePosition wheel_at_200 (handleWheel wheel_at_200 demo_zoomed)
     = Some \<lparr>p_x = 253100 / 1331, p_y = 253100 / 1331\<rparr>"
    unfolding demo_zoomed_again by (simp add: getMousePosition_def wheel_at_200_def)
  show "(2100 / 11 - 253100 / 1331 :: real) = 1000 / 1331"
    by simp
qed


end
